theory Spec2Isabelle
  imports Main
begin

section \<open>The to-do list manager of \<^verbatim>\<open>project_programming_2_completed.py\<close>\<close>

text \<open>
  The program is a small class hierarchy of tasks, two reminder channels behind an
  abstract interface, a manager that forwards to its channel, and \<^verbatim>\<open>ToDoApp\<close>, which owns
  a list of tasks. Python objects are mutable and shared by reference: the list of
  \<^verbatim>\<open>ToDoApp\<close> holds references, and the same task object may be added twice. The model
  therefore keeps the task objects in a store indexed by references, and every method is
  a function of the receiver (\<open>self\<close>) and the world (store and console) that returns
  the receiver and the world after the call.
\<close>

subsection \<open>Task objects\<close>

text \<open>
  \<^verbatim>\<open>datetime.now()\<close> is read from the environment: the constructors take the clock value as
  an argument. The class of an object and the attribute its class adds (\<^verbatim>\<open>recurrence\<close>,
  \<^verbatim>\<open>extra_notes\<close>) form the \<open>kind\<close> of the object. Titles, priorities, recurrences and
  notes are Python \<^verbatim>\<open>str\<close> values, statuses are \<^verbatim>\<open>bool\<close>.
\<close>

type_synonym datetime = nat

datatype task_class =
    Task
  | PriorityTask
  | RecurringTask string
  | SimpleTask
  | AdvancedTask string

record task =
  kind :: task_class
  title :: string
  completed :: bool
  priority :: string
  created_at :: datetime

text \<open>
  \<^verbatim>\<open>Task.__init__(self, title, priority="Medium")\<close>. The first argument is the kind of the
  object being initialised; an omitted keyword argument is \<open>None\<close>.
\<close>

definition Task_init :: "task_class \<Rightarrow> string \<Rightarrow> string option \<Rightarrow> datetime \<Rightarrow> task" where
  "Task_init self_kind a_title a_priority now =
     \<lparr> kind = self_kind,
       title = a_title,
       completed = False,
       priority = (case a_priority of None \<Rightarrow> ''Medium'' | Some p \<Rightarrow> p),
       created_at = now \<rparr>"

text \<open>\<^verbatim>\<open>Task(title, priority="Medium")\<close>\<close>

definition Task_new :: "string \<Rightarrow> string option \<Rightarrow> datetime \<Rightarrow> task" where
  "Task_new a_title a_priority now = Task_init Task a_title a_priority now"

text \<open>\<^verbatim>\<open>PriorityTask.__init__(self, title, priority="High")\<close> passes its priority on.\<close>

definition PriorityTask_new :: "string \<Rightarrow> string option \<Rightarrow> datetime \<Rightarrow> task" where
  "PriorityTask_new a_title a_priority now =
     Task_init PriorityTask a_title
       (Some (case a_priority of None \<Rightarrow> ''High'' | Some p \<Rightarrow> p)) now"

text \<open>
  \<^verbatim>\<open>RecurringTask.__init__(self, title, recurrence)\<close> calls \<^verbatim>\<open>super().__init__(title)\<close>, with
  no priority, and then stores the recurrence.
\<close>

definition RecurringTask_new :: "string \<Rightarrow> string \<Rightarrow> datetime \<Rightarrow> task" where
  "RecurringTask_new a_title a_recurrence now =
     Task_init (RecurringTask a_recurrence) a_title None now"

text \<open>\<^verbatim>\<open>SimpleTask\<close> has an empty body: it inherits the constructor of \<^verbatim>\<open>Task\<close>.\<close>

definition SimpleTask_new :: "string \<Rightarrow> string option \<Rightarrow> datetime \<Rightarrow> task" where
  "SimpleTask_new a_title a_priority now = Task_init SimpleTask a_title a_priority now"

text \<open>\<^verbatim>\<open>AdvancedTask.__init__(self, title, priority="Low", extra_notes="")\<close>\<close>

definition AdvancedTask_new ::
    "string \<Rightarrow> string option \<Rightarrow> string option \<Rightarrow> datetime \<Rightarrow> task" where
  "AdvancedTask_new a_title a_priority a_extra_notes now =
     Task_init (AdvancedTask (case a_extra_notes of None \<Rightarrow> [] | Some n \<Rightarrow> n)) a_title
       (Some (case a_priority of None \<Rightarrow> ''Low'' | Some p \<Rightarrow> p)) now"

text \<open>\<^verbatim>\<open>Task.update_status(self, status)\<close>, inherited by every variant.\<close>

definition update_status :: "task \<Rightarrow> bool \<Rightarrow> task" where
  "update_status self status = self\<lparr>completed := status\<rparr>"

text \<open>\<^verbatim>\<open>Task.__str__\<close>\<close>

definition Task_str :: "task \<Rightarrow> string" where
  "Task_str self =
     (let status = (if completed self then ''Completed'' else ''Pending'')
      in ''Task: '' @ title self @ '', Priority: '' @ priority self @ '', Status: '' @ status)"

text \<open>\<^verbatim>\<open>RecurringTask.__str__\<close> and \<^verbatim>\<open>AdvancedTask.__str__\<close> call \<^verbatim>\<open>super().__str__()\<close>.\<close>

definition RecurringTask_str :: "task \<Rightarrow> string \<Rightarrow> string" where
  "RecurringTask_str self recurrence = Task_str self @ '', Recurrence: '' @ recurrence"

definition AdvancedTask_str :: "task \<Rightarrow> string \<Rightarrow> string" where
  "AdvancedTask_str self extra_notes = Task_str self @ '', Notes: '' @ extra_notes"

text \<open>\<^verbatim>\<open>str(task)\<close>: the method of the object's own class.\<close>

definition str_task :: "task \<Rightarrow> string" where
  "str_task self =
     (case kind self of
        RecurringTask recurrence \<Rightarrow> RecurringTask_str self recurrence
      | AdvancedTask extra_notes \<Rightarrow> AdvancedTask_str self extra_notes
      | _ \<Rightarrow> Task_str self)"

subsection \<open>The world: task objects by reference, and the console\<close>

type_synonym ref = nat

record world =
  heap :: "ref \<Rightarrow> task"
  stdout :: "string list"

text \<open>\<^verbatim>\<open>print(s)\<close>: one entry of \<open>stdout\<close> for each call.\<close>

definition print :: "string \<Rightarrow> world \<Rightarrow> world" where
  "print s w = w\<lparr>stdout := stdout w @ [s]\<rparr>"

text \<open>The apostrophe of the messages.\<close>

definition quote :: "string \<Rightarrow> string" where
  "quote s = [CHR 0x27] @ s @ [CHR 0x27]"

subsection \<open>Reminders\<close>

datatype ReminderInterface = EmailReminder | SMSReminder

definition EmailReminder_set_reminder :: "ref \<Rightarrow> string \<Rightarrow> world \<Rightarrow> world" where
  "EmailReminder_set_reminder task reminder_text w =
     print (''Email reminder for task '' @ quote (title (heap w task)) @ '': '' @ reminder_text) w"

definition SMSReminder_set_reminder :: "ref \<Rightarrow> string \<Rightarrow> world \<Rightarrow> world" where
  "SMSReminder_set_reminder task reminder_text w =
     print (''SMS reminder for task '' @ quote (title (heap w task)) @ '': '' @ reminder_text) w"

text \<open>\<^verbatim>\<open>service.set_reminder(task, reminder_text)\<close> on an object of either class.\<close>

fun set_reminder :: "ReminderInterface \<Rightarrow> ref \<Rightarrow> string \<Rightarrow> world \<Rightarrow> world" where
  "set_reminder EmailReminder task reminder_text w = EmailReminder_set_reminder task reminder_text w"
| "set_reminder SMSReminder task reminder_text w = SMSReminder_set_reminder task reminder_text w"

record ReminderManager =
  reminder_service :: ReminderInterface

definition ReminderManager_init :: "ReminderInterface \<Rightarrow> ReminderManager" where
  "ReminderManager_init a_reminder_service = \<lparr> reminder_service = a_reminder_service \<rparr>"

definition send_reminder ::
    "ReminderManager \<Rightarrow> ref \<Rightarrow> string \<Rightarrow> world \<Rightarrow> ReminderManager \<times> world" where
  "send_reminder self task reminder_text w =
     (self, set_reminder (reminder_service self) task reminder_text w)"

subsection \<open>\<^verbatim>\<open>ToDoApp\<close>\<close>

record ToDoApp =
  tasks :: "ref list"

definition ToDoApp_init :: ToDoApp where
  "ToDoApp_init = \<lparr> tasks = [] \<rparr>"

definition add_task :: "ToDoApp \<Rightarrow> ref \<Rightarrow> world \<Rightarrow> ToDoApp \<times> world" where
  "add_task self task w =
     (let self' = self\<lparr>tasks := tasks self @ [task]\<rparr>
      in (self', print (''Task added: '' @ str_task (heap w task)) w))"

text \<open>The loop \<^verbatim>\<open>for task in self.tasks: print(task)\<close>.\<close>

fun display_loop :: "ref list \<Rightarrow> world \<Rightarrow> world" where
  "display_loop [] w = w"
| "display_loop (task # rest) w = display_loop rest (print (str_task (heap w task)) w)"

definition display_tasks :: "ToDoApp \<Rightarrow> world \<Rightarrow> ToDoApp \<times> world" where
  "display_tasks self w =
     (if tasks self = [] then (self, print ''No tasks available.'' w)
      else (self, display_loop (tasks self) (print ''Tasks List:'' w)))"

text \<open>
  The loop of \<^verbatim>\<open>find_task\<close>: \<^verbatim>\<open>for task in self.tasks: if task.title == title: return task\<close>.
  \<open>None\<close> is falling out of the loop.
\<close>

fun find_loop :: "ref list \<Rightarrow> string \<Rightarrow> world \<Rightarrow> ref option" where
  "find_loop [] a_title w = None"
| "find_loop (task # rest) a_title w =
     (if title (heap w task) = a_title then Some task else find_loop rest a_title w)"

definition find_task :: "ToDoApp \<Rightarrow> string \<Rightarrow> world \<Rightarrow> ref option \<times> ToDoApp \<times> world" where
  "find_task self a_title w =
     (case find_loop (tasks self) a_title w of
        Some task \<Rightarrow> (Some task, self, w)
      | None \<Rightarrow> (None, self, print (''Task '' @ quote a_title @ '' not found.'') w))"

text \<open>
  \<^verbatim>\<open>update_task_status\<close>: a task object has neither \<^verbatim>\<open>__bool__\<close> nor \<^verbatim>\<open>__len__\<close>, so
  \<^verbatim>\<open>if task:\<close> is the test for a found task. \<^verbatim>\<open>task.update_status(status)\<close> writes the
  object the reference points to.
\<close>

definition update_task_status :: "ToDoApp \<Rightarrow> string \<Rightarrow> bool \<Rightarrow> world \<Rightarrow> ToDoApp \<times> world" where
  "update_task_status self a_title status w =
     (case find_task self a_title w of
        (Some task, self1, w1) \<Rightarrow>
          (let w2 = w1\<lparr>heap := (heap w1)(task := update_status (heap w1 task) status)\<rparr>
           in (self1, print (''Task '' @ quote a_title @ '' status updated to: ''
                              @ (if status then ''Completed'' else ''Pending'')) w2))
      | (None, self1, w1) \<Rightarrow> (self1, w1))"

text \<open>A run of \<^verbatim>\<open>add_task\<close> calls, one for each reference, in order.\<close>

fun add_task_calls :: "ToDoApp \<Rightarrow> ref list \<Rightarrow> world \<Rightarrow> ToDoApp \<times> world" where
  "add_task_calls self [] w = (self, w)"
| "add_task_calls self (task # rest) w =
     (case add_task self task w of (self', w') \<Rightarrow> add_task_calls self' rest w')"


subsection \<open>A concrete world\<close>

text \<open>
  Five task objects, two of them titled \<open>Workout\<close>, and an application that holds all
  five in the order of their references.
\<close>

definition example_heap :: "ref \<Rightarrow> task" where
  "example_heap =
     (\<lambda>_. Task_new ''Buy groceries'' None 0)
       (1 := PriorityTask_new ''Complete project'' (Some ''High'') 1,
        2 := RecurringTask_new ''Workout'' ''Daily'' 2,
        3 := AdvancedTask_new ''Plan vacation'' (Some ''Medium'')
               (Some ''Include family preferences.'') 3,
        4 := SimpleTask_new ''Workout'' None 4)"

definition example_world :: world where
  "example_world = \<lparr> heap = example_heap, stdout = [] \<rparr>"

definition example_app :: ToDoApp where
  "example_app = \<lparr> tasks = [0, 1, 2, 3, 4] \<rparr>"

section \<open>Properties\<close>

subsection \<open>Constructors and status\<close>

text \<open>
  C7: a \<^verbatim>\<open>Task\<close> constructed without a priority has priority "Medium", a
  \<^verbatim>\<open>PriorityTask\<close> constructed without a priority has priority "High", and an
  \<^verbatim>\<open>AdvancedTask\<close> constructed without a priority has priority "Low" (whether or not
  notes are given).
\<close>

theorem default_priorities:
  "priority (Task_new a_title None now) = ''Medium'' \<and>
   priority (PriorityTask_new a_title None now) = ''High'' \<and>
   priority (AdvancedTask_new a_title None a_extra_notes now) = ''Low''"
  by (simp add: Task_new_def PriorityTask_new_def AdvancedTask_new_def Task_init_def)

lemma priority_update_status: "priority (update_status t b) = priority t"
  by (simp add: update_status_def)

lemma priority_foldl_update_status: "priority (foldl update_status t bs) = priority t"
  by (induction bs arbitrary: t) (simp_all add: priority_update_status)

text \<open>
  C9: every \<^verbatim>\<open>RecurringTask\<close> has priority "Medium". The constructor takes a title, a
  recurrence and the clock only, and the priority it sets is "Medium"; no later status
  update, whatever the sequence of statuses, changes it.
\<close>

theorem recurring_task_priority:
  "priority (RecurringTask_new a_title a_recurrence now) = ''Medium'' \<and>
   priority (foldl update_status (RecurringTask_new a_title a_recurrence now) statuses) = ''Medium''"
  by (simp add: priority_foldl_update_status) (simp add: RecurringTask_new_def Task_init_def)

text \<open>
  C8, as the code has it: the constructors store the title they are given and check
  nothing, so the title of a constructed task of any variant is the argument, empty or
  not, and a status update keeps it.
\<close>

theorem title_is_argument:
  "title (Task_new a_title a_priority now) = a_title \<and>
   title (PriorityTask_new a_title a_priority now) = a_title \<and>
   title (RecurringTask_new a_title a_recurrence now) = a_title \<and>
   title (SimpleTask_new a_title a_priority now) = a_title \<and>
   title (AdvancedTask_new a_title a_priority a_extra_notes now) = a_title \<and>
   title (update_status t status) = title t"
  by (simp add: Task_new_def PriorityTask_new_def RecurringTask_new_def SimpleTask_new_def
      AdvancedTask_new_def Task_init_def update_status_def)

text \<open>
  C8, as the specification states it, fails: \<^verbatim>\<open>Task("")\<close> is constructed, and its title
  is the empty text.
\<close>

theorem empty_title_constructed: "\<not> title (Task_new [] None 0) \<noteq> []"
  by (simp add: Task_new_def Task_init_def)

subsection \<open>Rendering\<close>

text \<open>
  C3: the text of a task is "Task: title, Priority: priority, Status: Completed" or
  "... Status: Pending", the status word following the completed flag; the text of a
  \<^verbatim>\<open>RecurringTask\<close> is that text followed by ", Recurrence: recurrence", and the text of an
  \<^verbatim>\<open>AdvancedTask\<close> is that text followed by ", Notes: extra_notes". The other classes
  add nothing.
\<close>

theorem str_task_format:
  "str_task t =
     ''Task: '' @ title t @ '', Priority: '' @ priority t @ '', Status: ''
       @ (if completed t then ''Completed'' else ''Pending'')
       @ (case kind t of
            RecurringTask recurrence \<Rightarrow> '', Recurrence: '' @ recurrence
          | AdvancedTask extra_notes \<Rightarrow> '', Notes: '' @ extra_notes
          | _ \<Rightarrow> [])"
  by (cases "kind t")
     (simp_all add: str_task_def Task_str_def RecurringTask_str_def AdvancedTask_str_def)

text \<open>
  C5: after \<^verbatim>\<open>update_status(True)\<close> the text of a task of any class reads
  "Status: Completed" at the place of the status, after \<^verbatim>\<open>update_status(False)\<close> it reads
  "Status: Pending", and a second call with the same status changes nothing.
\<close>

theorem update_status_render:
  "str_task (update_status t True) =
     ''Task: '' @ title t @ '', Priority: '' @ priority t @ '', Status: Completed''
       @ (case kind t of
            RecurringTask recurrence \<Rightarrow> '', Recurrence: '' @ recurrence
          | AdvancedTask extra_notes \<Rightarrow> '', Notes: '' @ extra_notes
          | _ \<Rightarrow> []) \<and>
   str_task (update_status t False) =
     ''Task: '' @ title t @ '', Priority: '' @ priority t @ '', Status: Pending''
       @ (case kind t of
            RecurringTask recurrence \<Rightarrow> '', Recurrence: '' @ recurrence
          | AdvancedTask extra_notes \<Rightarrow> '', Notes: '' @ extra_notes
          | _ \<Rightarrow> []) \<and>
   update_status (update_status t status) status = update_status t status"
  by (cases "kind t")
     (simp_all add: str_task_def Task_str_def RecurringTask_str_def AdvancedTask_str_def
        update_status_def)

subsection \<open>Reminders\<close>

text \<open>
  C6: for every task, message and world, a manager built on \<^verbatim>\<open>EmailReminder\<close> prints
  "Email" followed by a text made of the task's title and the message, a manager built
  on \<^verbatim>\<open>SMSReminder\<close> prints "SMS" followed by the same text, and \<^verbatim>\<open>send_reminder\<close> of any
  manager is \<^verbatim>\<open>set_reminder\<close> of its channel on the same arguments.
\<close>

theorem reminder_channel_swap:
  "send_reminder (ReminderManager_init EmailReminder) task reminder_text w =
     (ReminderManager_init EmailReminder,
      w\<lparr>stdout := stdout w @
        [''Email'' @ '' reminder for task '' @ [CHR 0x27] @ title (heap w task) @ [CHR 0x27]
           @ '': '' @ reminder_text]\<rparr>) \<and>
   send_reminder (ReminderManager_init SMSReminder) task reminder_text w =
     (ReminderManager_init SMSReminder,
      w\<lparr>stdout := stdout w @
        [''SMS'' @ '' reminder for task '' @ [CHR 0x27] @ title (heap w task) @ [CHR 0x27]
           @ '': '' @ reminder_text]\<rparr>) \<and>
   send_reminder m task reminder_text w =
     (m, set_reminder (reminder_service m) task reminder_text w)"
  by (simp add: send_reminder_def ReminderManager_init_def EmailReminder_set_reminder_def
      SMSReminder_set_reminder_def print_def quote_def)

lemma set_reminder_prints:
  "\<exists>line. set_reminder c task reminder_text w = w\<lparr>stdout := stdout w @ [line]\<rparr>"
  by (cases c; simp add: EmailReminder_set_reminder_def SMSReminder_set_reminder_def print_def; blast)

text \<open>
  C10: \<^verbatim>\<open>send_reminder\<close> and \<^verbatim>\<open>set_reminder\<close> change nothing but the console. The manager
  and its channel are the same after the call, every task object of the store is the
  same (so the tasks of any application's list are), and the world after the call is the
  world before with one line printed.
\<close>

theorem reminder_frame:
  "fst (send_reminder m task reminder_text w) = m \<and>
   reminder_service (fst (send_reminder m task reminder_text w)) = reminder_service m \<and>
   heap (snd (send_reminder m task reminder_text w)) = heap w \<and>
   heap (set_reminder c task reminder_text w) = heap w \<and>
   map (heap (snd (send_reminder m task reminder_text w))) (tasks app) = map (heap w) (tasks app) \<and>
   (\<exists>line. snd (send_reminder m task reminder_text w) = w\<lparr>stdout := stdout w @ [line]\<rparr>) \<and>
   (\<exists>line. set_reminder c task reminder_text w = w\<lparr>stdout := stdout w @ [line]\<rparr>)"
proof -
  have hp: "heap (set_reminder d task reminder_text w) = heap w" for d
    using set_reminder_prints [of d task reminder_text w] by auto
  have ex: "\<exists>line. snd (send_reminder m task reminder_text w) = w\<lparr>stdout := stdout w @ [line]\<rparr>"
    using set_reminder_prints [of "reminder_service m" task reminder_text w]
    by (simp add: send_reminder_def)
  have plain: "fst (send_reminder m task reminder_text w) = m \<and>
      heap (snd (send_reminder m task reminder_text w)) = heap w"
    by (simp add: send_reminder_def hp)
  show ?thesis
    using plain ex hp [of c] set_reminder_prints [of c task reminder_text w] by simp
qed

subsection \<open>Adding and displaying\<close>

lemma heap_print: "heap (print s w) = heap w"
  by (simp add: print_def)

lemma display_loop_eq:
  "display_loop rs w = w\<lparr>stdout := stdout w @ map (\<lambda>r. str_task (heap w r)) rs\<rparr>"
proof (induction rs arbitrary: w)
  case Nil
  show ?case by simp
next
  case (Cons r rs)
  show ?case
    by (simp add: Cons.IH heap_print) (simp add: print_def)
qed

lemma add_task_calls_eq:
  "add_task_calls self rs w =
     (self\<lparr>tasks := tasks self @ rs\<rparr>,
      w\<lparr>stdout := stdout w @ map (\<lambda>r. ''Task added: '' @ str_task (heap w r)) rs\<rparr>)"
proof (induction rs arbitrary: self w)
  case Nil
  show ?case by simp
next
  case (Cons r rs)
  show ?case
    by (simp add: add_task_def Cons.IH heap_print) (simp add: print_def)
qed

text \<open>
  C4: \<^verbatim>\<open>add_task\<close> appends the reference to the end of the list and prints "Task added: "
  with the text of the task. After the calls for the references \<open>rs\<close> on a new
  application, the list is \<open>rs\<close>, one line was printed for each call, and
  \<^verbatim>\<open>display_tasks\<close> prints, when \<open>rs\<close> is not empty, the header and then the text of
  each task of \<open>rs\<close>, in the order of \<open>rs\<close> (as many entries as calls); when \<open>rs\<close> is
  empty it prints the single line "No tasks available.". \<^verbatim>\<open>display_tasks\<close> returns the
  application as it was and changes the console only.
\<close>

theorem add_then_display:
  "add_task self task w =
     (self\<lparr>tasks := tasks self @ [task]\<rparr>,
      w\<lparr>stdout := stdout w @ [''Task added: '' @ str_task (heap w task)]\<rparr>) \<and>
   fst (add_task_calls ToDoApp_init rs w) = \<lparr>tasks = rs\<rparr> \<and>
   snd (add_task_calls ToDoApp_init rs w) =
     w\<lparr>stdout := stdout w @ map (\<lambda>r. ''Task added: '' @ str_task (heap w r)) rs\<rparr> \<and>
   display_tasks (fst (add_task_calls ToDoApp_init rs w)) (snd (add_task_calls ToDoApp_init rs w)) =
     (\<lparr>tasks = rs\<rparr>,
      w\<lparr>stdout := stdout w @ map (\<lambda>r. ''Task added: '' @ str_task (heap w r)) rs
          @ (if rs = [] then [''No tasks available.'']
             else ''Tasks List:'' # map (\<lambda>r. str_task (heap w r)) rs)\<rparr>) \<and>
   length (map (\<lambda>r. str_task (heap w r)) rs) = length rs \<and>
   display_tasks ToDoApp_init w = (ToDoApp_init, w\<lparr>stdout := stdout w @ [''No tasks available.'']\<rparr>) \<and>
   fst (display_tasks self w) = self \<and>
   heap (snd (display_tasks self w)) = heap w"
proof -
  have one: "add_task self task w =
     (self\<lparr>tasks := tasks self @ [task]\<rparr>,
      w\<lparr>stdout := stdout w @ [''Task added: '' @ str_task (heap w task)]\<rparr>)"
    by (simp add: add_task_def print_def)
  have app: "fst (add_task_calls ToDoApp_init rs w) = \<lparr>tasks = rs\<rparr>"
    by (simp add: add_task_calls_eq ToDoApp_init_def)
  have wld: "snd (add_task_calls ToDoApp_init rs w) =
     w\<lparr>stdout := stdout w @ map (\<lambda>r. ''Task added: '' @ str_task (heap w r)) rs\<rparr>"
    by (simp add: add_task_calls_eq)
  have disp: "display_tasks \<lparr>tasks = rs\<rparr>
       (w\<lparr>stdout := stdout w @ map (\<lambda>r. ''Task added: '' @ str_task (heap w r)) rs\<rparr>) =
     (\<lparr>tasks = rs\<rparr>,
      w\<lparr>stdout := stdout w @ map (\<lambda>r. ''Task added: '' @ str_task (heap w r)) rs
          @ (if rs = [] then [''No tasks available.'']
             else ''Tasks List:'' # map (\<lambda>r. str_task (heap w r)) rs)\<rparr>)"
    by (simp add: display_tasks_def display_loop_eq heap_print) (simp add: print_def)
  have empty: "display_tasks ToDoApp_init w =
      (ToDoApp_init, w\<lparr>stdout := stdout w @ [''No tasks available.'']\<rparr>)"
    by (simp add: display_tasks_def ToDoApp_init_def print_def)
  have ro: "fst (display_tasks self w) = self"
    by (simp add: display_tasks_def)
  have hp: "heap (snd (display_tasks self w)) = heap w"
    by (simp add: display_tasks_def display_loop_eq heap_print)
  show ?thesis
    using one app wld disp empty ro hp by simp
qed

subsection \<open>Lookup and status update by title\<close>

lemma find_loop_None_iff:
  "find_loop rs t w = None \<longleftrightarrow> \<not> (\<exists>r\<in>set rs. title (heap w r) = t)"
  by (induction rs) auto

lemma find_loop_Some_first:
  "find_loop rs t w = Some r \<Longrightarrow>
     \<exists>i<length rs. rs ! i = r \<and> title (heap w (rs ! i)) = t \<and>
       (\<forall>j<i. title (heap w (rs ! j)) \<noteq> t)"
proof (induction rs)
  case Nil
  then show ?case by simp
next
  case (Cons a rs)
  show ?case
  proof (cases "title (heap w a) = t")
    case True
    with Cons.prems have "a = r" by simp
    with True show ?thesis by (intro exI [of _ 0]) simp
  next
    case False
    with Cons.prems have "find_loop rs t w = Some r" by simp
    then obtain i where i: "i < length rs" "rs ! i = r" "title (heap w (rs ! i)) = t"
        "\<forall>j<i. title (heap w (rs ! j)) \<noteq> t"
      using Cons.IH by blast
    have "\<forall>j<Suc i. title (heap w ((a # rs) ! j)) \<noteq> t"
      using False i(4) by (auto simp: less_Suc_eq_0_disj)
    with i show ?thesis by (intro exI [of _ "Suc i"]) simp
  qed
qed

lemma find_loop_present:
  assumes "\<exists>r\<in>set rs. title (heap w r) = t"
  shows "\<exists>i<length rs. find_loop rs t w = Some (rs ! i) \<and> title (heap w (rs ! i)) = t \<and>
           (\<forall>j<i. title (heap w (rs ! j)) \<noteq> t)"
proof -
  from assms have "find_loop rs t w \<noteq> None"
    by (simp add: find_loop_None_iff)
  then obtain r where r: "find_loop rs t w = Some r" by blast
  from find_loop_Some_first [OF r] r show ?thesis by blast
qed

text \<open>
  C2: when some task of the list has the title, \<^verbatim>\<open>find_task\<close> returns the reference at
  the least position whose task has exactly that title, and the application and the
  world (console included) are as before; when none has (the empty list included), it
  returns no task, the application and the task objects are as before, and the one line
  "Task 'title' not found." is printed. Titles are compared as texts, character by
  character.
\<close>

theorem find_task_first_match:
  "((\<exists>r\<in>set (tasks self). title (heap w r) = a_title) \<longrightarrow>
      (\<exists>i<length (tasks self).
          title (heap w (tasks self ! i)) = a_title \<and>
          (\<forall>j<i. title (heap w (tasks self ! j)) \<noteq> a_title) \<and>
          find_task self a_title w = (Some (tasks self ! i), self, w))) \<and>
   (\<not> (\<exists>r\<in>set (tasks self). title (heap w r) = a_title) \<longrightarrow>
      find_task self a_title w =
        (None, self,
         w\<lparr>stdout := stdout w @ [''Task '' @ [CHR 0x27] @ a_title @ [CHR 0x27] @ '' not found.'']\<rparr>))"
proof (intro conjI impI)
  assume "\<exists>r\<in>set (tasks self). title (heap w r) = a_title"
  from find_loop_present [OF this]
  obtain i where i: "i < length (tasks self)"
      "find_loop (tasks self) a_title w = Some (tasks self ! i)"
      "title (heap w (tasks self ! i)) = a_title"
      "\<forall>j<i. title (heap w (tasks self ! j)) \<noteq> a_title"
    by blast
  have "find_task self a_title w = (Some (tasks self ! i), self, w)"
    by (simp add: find_task_def i(2))
  with i show "\<exists>i<length (tasks self).
          title (heap w (tasks self ! i)) = a_title \<and>
          (\<forall>j<i. title (heap w (tasks self ! j)) \<noteq> a_title) \<and>
          find_task self a_title w = (Some (tasks self ! i), self, w)"
    by blast
next
  assume "\<not> (\<exists>r\<in>set (tasks self). title (heap w r) = a_title)"
  then have "find_loop (tasks self) a_title w = None"
    by (simp add: find_loop_None_iff)
  then show "find_task self a_title w =
        (None, self,
         w\<lparr>stdout := stdout w @ [''Task '' @ [CHR 0x27] @ a_title @ [CHR 0x27] @ '' not found.'']\<rparr>)"
    by (simp add: find_task_def print_def quote_def)
qed

lemma example_titles:
  "title (example_heap 0) = ''Buy groceries''"
  "title (example_heap 1) = ''Complete project''"
  "title (example_heap (Suc 0)) = ''Complete project''"
  "title (example_heap 2) = ''Workout''"
  "title (example_heap 3) = ''Plan vacation''"
  "title (example_heap 4) = ''Workout''"
  by (simp_all add: example_heap_def Task_new_def PriorityTask_new_def RecurringTask_new_def
      AdvancedTask_new_def SimpleTask_new_def Task_init_def)

lemma example_first_Workout:
  assumes "i < length (tasks example_app)"
    and "title (heap example_world (tasks example_app ! i)) = ''Workout''"
    and "\<forall>j<i. title (heap example_world (tasks example_app ! j)) \<noteq> ''Workout''"
  shows "tasks example_app ! i = 2"
proof -
  from assms(1) have "i = 0 \<or> i = 1 \<or> i = 2 \<or> i = 3 \<or> i = 4"
    by (auto simp: example_app_def)
  moreover have "i \<noteq> 0"
  proof
    assume "i = 0"
    with assms(2) show False
      by (simp add: example_app_def example_world_def example_titles)
  qed
  moreover have "i \<noteq> 1"
  proof
    assume "i = 1"
    with assms(2) show False
      by (simp add: example_app_def example_world_def example_titles)
  qed
  moreover have "i \<noteq> 3"
  proof
    assume "i = 3"
    with assms(2) show False
      by (simp add: example_app_def example_world_def example_titles)
  qed
  moreover have "i \<noteq> 4"
  proof
    assume "i = 4"
    with assms(3) have "title (heap example_world (tasks example_app ! 2)) \<noteq> ''Workout''"
      by simp
    then show False
      by (simp add: example_app_def example_world_def example_titles)
  qed
  ultimately have "i = 2" by blast
  then show ?thesis by (simp add: example_app_def)
qed

text \<open>
  On the example: the first task titled \<open>Workout\<close> is behind reference 2 although
  reference 4 has the same title; \<open>workout\<close>, in lower case, is the title of no task; and
  a new application has no task at all.
\<close>

theorem find_task_first_match_witness:
  "(\<exists>r\<in>set (tasks example_app). title (heap example_world r) = ''Workout'') \<and>
   find_task example_app ''Workout'' example_world = (Some 2, example_app, example_world) \<and>
   \<not> (\<exists>r\<in>set (tasks example_app). title (heap example_world r) = ''workout'') \<and>
   find_task example_app ''workout'' example_world =
     (None, example_app,
      example_world\<lparr>stdout := [''Task '' @ [CHR 0x27] @ ''workout'' @ [CHR 0x27] @ '' not found.'']\<rparr>) \<and>
   find_task ToDoApp_init ''Workout'' example_world =
     (None, ToDoApp_init,
      example_world\<lparr>stdout := [''Task '' @ [CHR 0x27] @ ''Workout'' @ [CHR 0x27] @ '' not found.'']\<rparr>)"
proof -
  have present: "\<exists>r\<in>set (tasks example_app). title (heap example_world r) = ''Workout''"
    by (simp add: example_app_def example_world_def example_titles)
  have absent: "\<not> (\<exists>r\<in>set (tasks example_app). title (heap example_world r) = ''workout'')"
    by (simp add: example_app_def example_world_def example_titles)
  have empty: "\<not> (\<exists>r\<in>set (tasks ToDoApp_init). title (heap example_world r) = ''Workout'')"
    by (simp add: ToDoApp_init_def)
  from find_task_first_match [of example_app example_world "''Workout''"] present
  obtain i where i: "i < length (tasks example_app)"
      "title (heap example_world (tasks example_app ! i)) = ''Workout''"
      "\<forall>j<i. title (heap example_world (tasks example_app ! j)) \<noteq> ''Workout''"
      "find_task example_app ''Workout'' example_world =
         (Some (tasks example_app ! i), example_app, example_world)"
    by blast
  have found: "find_task example_app ''Workout'' example_world = (Some 2, example_app, example_world)"
    using i(4) example_first_Workout [OF i(1) i(2) i(3)] by simp
  have nf1: "find_task example_app ''workout'' example_world =
     (None, example_app,
      example_world\<lparr>stdout := stdout example_world @
        [''Task '' @ [CHR 0x27] @ ''workout'' @ [CHR 0x27] @ '' not found.'']\<rparr>)"
    using find_task_first_match [of example_app example_world "''workout''"] absent by blast
  have nf2: "find_task ToDoApp_init ''Workout'' example_world =
     (None, ToDoApp_init,
      example_world\<lparr>stdout := stdout example_world @
        [''Task '' @ [CHR 0x27] @ ''Workout'' @ [CHR 0x27] @ '' not found.'']\<rparr>)"
    using find_task_first_match [of ToDoApp_init example_world "''Workout''"] empty by blast
  have out: "stdout example_world = []"
    by (simp add: example_world_def)
  show ?thesis
    using present absent found nf1 nf2 by (simp add: out)
qed

lemma update_task_status_found:
  "find_loop (tasks self) a_title w = Some r \<Longrightarrow>
     update_task_status self a_title status w =
       (self,
        w\<lparr>heap := (heap w)(r := (heap w r)\<lparr>completed := status\<rparr>),
          stdout := stdout w @
            [''Task '' @ [CHR 0x27] @ a_title @ [CHR 0x27] @ '' status updated to: ''
               @ (if status then ''Completed'' else ''Pending'')]\<rparr>)"
  by (simp add: update_task_status_def find_task_def update_status_def print_def quote_def)

lemma update_task_status_absent:
  "find_loop (tasks self) a_title w = None \<Longrightarrow>
     update_task_status self a_title status w =
       (self,
        w\<lparr>stdout := stdout w @ [''Task '' @ [CHR 0x27] @ a_title @ [CHR 0x27] @ '' not found.'']\<rparr>)"
  by (simp add: update_task_status_def find_task_def print_def quote_def)

text \<open>
  C1: \<^verbatim>\<open>update_task_status\<close> never changes the list of the application. When some task
  of the list has the title, the store after the call is the store before with one
  object written: the task at the least position of the list whose title is the
  argument, and of that object the completed flag only, which is the new status; its
  class and variant field, title, priority and creation time are as before, and the
  object behind every other reference is as before. When no task of the list has the
  title, the store after the call is the store before.
\<close>

theorem update_task_status_frame:
  "fst (update_task_status self a_title status w) = self \<and>
   ((\<exists>r\<in>set (tasks self). title (heap w r) = a_title) \<longrightarrow>
      (\<exists>i<length (tasks self).
          title (heap w (tasks self ! i)) = a_title \<and>
          (\<forall>j<i. title (heap w (tasks self ! j)) \<noteq> a_title) \<and>
          heap (snd (update_task_status self a_title status w)) =
            (heap w)(tasks self ! i := (heap w (tasks self ! i))\<lparr>completed := status\<rparr>) \<and>
          completed (heap (snd (update_task_status self a_title status w)) (tasks self ! i)) = status \<and>
          kind (heap (snd (update_task_status self a_title status w)) (tasks self ! i)) =
            kind (heap w (tasks self ! i)) \<and>
          title (heap (snd (update_task_status self a_title status w)) (tasks self ! i)) =
            title (heap w (tasks self ! i)) \<and>
          priority (heap (snd (update_task_status self a_title status w)) (tasks self ! i)) =
            priority (heap w (tasks self ! i)) \<and>
          created_at (heap (snd (update_task_status self a_title status w)) (tasks self ! i)) =
            created_at (heap w (tasks self ! i)) \<and>
          (\<forall>r. r \<noteq> tasks self ! i \<longrightarrow>
             heap (snd (update_task_status self a_title status w)) r = heap w r))) \<and>
   (\<not> (\<exists>r\<in>set (tasks self). title (heap w r) = a_title) \<longrightarrow>
      heap (snd (update_task_status self a_title status w)) = heap w)"
proof (intro conjI impI)
  show "fst (update_task_status self a_title status w) = self"
  proof (cases "find_loop (tasks self) a_title w")
    case None
    then show ?thesis by (simp add: update_task_status_absent)
  next
    case (Some r)
    then show ?thesis by (simp add: update_task_status_found)
  qed
next
  assume "\<exists>r\<in>set (tasks self). title (heap w r) = a_title"
  from find_loop_present [OF this]
  obtain i where i: "i < length (tasks self)"
      "find_loop (tasks self) a_title w = Some (tasks self ! i)"
      "title (heap w (tasks self ! i)) = a_title"
      "\<forall>j<i. title (heap w (tasks self ! j)) \<noteq> a_title"
    by blast
  have upd: "heap (snd (update_task_status self a_title status w)) =
      (heap w)(tasks self ! i := (heap w (tasks self ! i))\<lparr>completed := status\<rparr>)"
    by (simp add: update_task_status_found [OF i(2)])
  show "\<exists>i<length (tasks self).
          title (heap w (tasks self ! i)) = a_title \<and>
          (\<forall>j<i. title (heap w (tasks self ! j)) \<noteq> a_title) \<and>
          heap (snd (update_task_status self a_title status w)) =
            (heap w)(tasks self ! i := (heap w (tasks self ! i))\<lparr>completed := status\<rparr>) \<and>
          completed (heap (snd (update_task_status self a_title status w)) (tasks self ! i)) = status \<and>
          kind (heap (snd (update_task_status self a_title status w)) (tasks self ! i)) =
            kind (heap w (tasks self ! i)) \<and>
          title (heap (snd (update_task_status self a_title status w)) (tasks self ! i)) =
            title (heap w (tasks self ! i)) \<and>
          priority (heap (snd (update_task_status self a_title status w)) (tasks self ! i)) =
            priority (heap w (tasks self ! i)) \<and>
          created_at (heap (snd (update_task_status self a_title status w)) (tasks self ! i)) =
            created_at (heap w (tasks self ! i)) \<and>
          (\<forall>r. r \<noteq> tasks self ! i \<longrightarrow>
             heap (snd (update_task_status self a_title status w)) r = heap w r)"
  proof (intro exI [of _ i] conjI)
    show "i < length (tasks self)" by (rule i(1))
    show "title (heap w (tasks self ! i)) = a_title" by (rule i(3))
    show "\<forall>j<i. title (heap w (tasks self ! j)) \<noteq> a_title" by (rule i(4))
    show "heap (snd (update_task_status self a_title status w)) =
      (heap w)(tasks self ! i := (heap w (tasks self ! i))\<lparr>completed := status\<rparr>)"
      by (rule upd)
  qed (simp_all add: upd)
next
  assume "\<not> (\<exists>r\<in>set (tasks self). title (heap w r) = a_title)"
  then have "find_loop (tasks self) a_title w = None"
    by (simp add: find_loop_None_iff)
  then show "heap (snd (update_task_status self a_title status w)) = heap w"
    by (simp add: update_task_status_absent)
qed

text \<open>
  On the example: updating \<open>Workout\<close> writes the completed flag of the object behind
  reference 2 and leaves the second task of that title, behind reference 4, as it was;
  updating \<open>workout\<close> writes nothing.
\<close>

theorem update_task_status_frame_witness:
  "(\<exists>r\<in>set (tasks example_app). title (heap example_world r) = ''Workout'') \<and>
   fst (update_task_status example_app ''Workout'' True example_world) = example_app \<and>
   heap (snd (update_task_status example_app ''Workout'' True example_world)) =
     example_heap(2 := (example_heap 2)\<lparr>completed := True\<rparr>) \<and>
   \<not> (\<exists>r\<in>set (tasks example_app). title (heap example_world r) = ''workout'') \<and>
   heap (snd (update_task_status example_app ''workout'' True example_world)) = example_heap"
proof -
  have present: "\<exists>r\<in>set (tasks example_app). title (heap example_world r) = ''Workout''"
    by (simp add: example_app_def example_world_def example_titles)
  have absent: "\<not> (\<exists>r\<in>set (tasks example_app). title (heap example_world r) = ''workout'')"
    by (simp add: example_app_def example_world_def example_titles)
  note thm1 = update_task_status_frame [of example_app "''Workout''" True example_world]
  note thm2 = update_task_status_frame [of example_app "''workout''" True example_world]
  from thm1 present
  obtain i where i: "i < length (tasks example_app)"
      "title (heap example_world (tasks example_app ! i)) = ''Workout''"
      "\<forall>j<i. title (heap example_world (tasks example_app ! j)) \<noteq> ''Workout''"
      "heap (snd (update_task_status example_app ''Workout'' True example_world)) =
         (heap example_world)(tasks example_app ! i :=
            (heap example_world (tasks example_app ! i))\<lparr>completed := True\<rparr>)"
    by blast
  have two: "tasks example_app ! i = 2"
    by (rule example_first_Workout [OF i(1) i(2) i(3)])
  have hp: "heap example_world = example_heap"
    by (simp add: example_world_def)
  have upd: "heap (snd (update_task_status example_app ''Workout'' True example_world)) =
      example_heap(2 := (example_heap 2)\<lparr>completed := True\<rparr>)"
    using i(4) by (simp add: two hp)
  have same: "fst (update_task_status example_app ''Workout'' True example_world) = example_app"
    using thm1 by blast
  have none: "heap (snd (update_task_status example_app ''workout'' True example_world)) = example_heap"
    using thm2 absent hp by simp
  show ?thesis
    using present same upd absent none by blast
qed

end
